theory Spec2Isabelle
  imports Complex_Main "HOL-Library.Word" "HOL-Library.AList"
begin

section \<open>Values, exceptions and printed output\<close>

text \<open>
  The script \<^verbatim>\<open>light_monitor.py\<close> reads lines of bytes from a serial device, decodes
  them into Python strings and turns them into floats. A byte is an \<open>8 word\<close>; a Python
  \<^verbatim>\<open>str\<close> is a list of Unicode code points; the names of fields, files and
  configuration keys, which the script only ever writes as ASCII literals or builds by
  concatenation, are of type \<open>string\<close>. The type of floats is a type variable \<open>'f\<close>: the
  builtin \<^verbatim>\<open>float\<close> is passed to every function that calls it, as a function
  \<open>flt\<close> that returns \<open>None\<close> where the builtin raises \<^verbatim>\<open>ValueError\<close>.
\<close>

type_synonym byte = "8 word"
type_synonym bytes = "byte list"
type_synonym ustr = "nat list"

text \<open>The exceptions that the modelled code can meet.\<close>

datatype error =
    UnboundLocalError string
  | NameError string
  | ValueError
  | KeyError string
  | OtherError string

text \<open>
  A value stored in a sample: one of the floats sent by the device, or the text that
  \<^verbatim>\<open>strftime\<close> made of the time of the read.
\<close>

datatype 'f pyval = Float 'f | Str string

type_synonym 'f sample = "(string \<times> 'f pyval) list"

text \<open>
  A value stored in an aggregated record: the text made by \<^verbatim>\<open>str\<close>, or the
  \<^verbatim>\<open>datetime\<close> object of the aggregation, whose type is a type variable \<open>'t\<close>.
\<close>

datatype 't aggval = Text string | Stamp 't

type_synonym 't aggregate = "(string \<times> 't aggval) list"

text \<open>
  What the functions print, one constructor for each \<^verbatim>\<open>print\<close> of the source (with
  the values that the printed text embeds).
\<close>

datatype 'f out =
    Failed_parsing_row ustr error
  | Failed_reading error
  | Failed_parsing_data bytes
  | Failed_aggregating
  | Batch "'f sample list"
  | Hashes
  | ERROR_line
  | Err error

section \<open>Constants of the script\<close>

definition CSV_FIELD_NAMES :: "string list" where
  "CSV_FIELD_NAMES = [''dateTime'', ''lights_on_time'', ''lights_off_time'']"

definition FILE_WRITE_DELAY_MINS :: nat where
  "FILE_WRITE_DELAY_MINS = 3"

section \<open>The builtins used by the line parser\<close>

text \<open>
  \<^verbatim>\<open>str(b, 'utf-8')\<close>: strict UTF-8 decoding. The result is \<open>None\<close> where Python
  raises \<^verbatim>\<open>UnicodeDecodeError\<close>: on a byte that cannot start a sequence, on a
  truncated sequence, on an overlong encoding, on a surrogate and beyond U+10FFFF. The
  second byte of a sequence of three or four bytes has bounds that depend on the first.
\<close>

definition cont :: "byte \<Rightarrow> bool" where
  "cont b \<longleftrightarrow> 0x80 \<le> b \<and> b \<le> 0xBF"

definition low6 :: "byte \<Rightarrow> nat" where
  "low6 b = unat b - 0x80"

fun utf8_decode :: "bytes \<Rightarrow> ustr option" where
  "utf8_decode [] = Some []"
| "utf8_decode (b # bs) =
     (if b < 0x80 then map_option ((#) (unat b)) (utf8_decode bs)
      else if 0xC2 \<le> b \<and> b \<le> 0xDF then
        (case bs of
           c1 # r \<Rightarrow>
             if cont c1
             then map_option ((#) ((unat b - 0xC0) * 64 + low6 c1)) (utf8_decode r)
             else None
         | _ \<Rightarrow> None)
      else if 0xE0 \<le> b \<and> b \<le> 0xEF then
        (case bs of
           c1 # c2 # r \<Rightarrow>
             if (if b = 0xE0 then 0xA0 else 0x80) \<le> c1 \<and> c1 \<le> (if b = 0xED then 0x9F else 0xBF)
                \<and> cont c2
             then map_option ((#) ((unat b - 0xE0) * 4096 + low6 c1 * 64 + low6 c2))
                    (utf8_decode r)
             else None
         | _ \<Rightarrow> None)
      else if 0xF0 \<le> b \<and> b \<le> 0xF4 then
        (case bs of
           c1 # c2 # c3 # r \<Rightarrow>
             if (if b = 0xF0 then 0x90 else 0x80) \<le> c1 \<and> c1 \<le> (if b = 0xF4 then 0x8F else 0xBF)
                \<and> cont c2 \<and> cont c3
             then map_option
                    ((#) ((unat b - 0xF0) * 262144 + low6 c1 * 4096 + low6 c2 * 64 + low6 c3))
                    (utf8_decode r)
             else None
         | _ \<Rightarrow> None)
      else None)"

text \<open>\<^verbatim>\<open>s.strip(chars)\<close>: the characters of \<open>chars\<close> are removed from both ends.\<close>

definition strip :: "nat list \<Rightarrow> ustr \<Rightarrow> ustr" where
  "strip chars s =
     rev (dropWhile (\<lambda>c. c \<in> set chars) (rev (dropWhile (\<lambda>c. c \<in> set chars) s)))"

text \<open>
  \<^verbatim>\<open>s.split(sep)\<close> for a separator of one character: the parts between the
  separators, empty parts included, so at least one part. \<open>cur\<close> is the part being read,
  in reverse.
\<close>

fun split_from :: "nat \<Rightarrow> ustr \<Rightarrow> ustr \<Rightarrow> ustr list" where
  "split_from sep cur [] = [rev cur]"
| "split_from sep cur (c # cs) =
     (if c = sep then rev cur # split_from sep [] cs else split_from sep (c # cur) cs)"

definition split :: "nat \<Rightarrow> ustr \<Rightarrow> ustr list" where
  "split sep s = split_from sep [] s"

text \<open>
  The comprehension \<^verbatim>\<open>[float(x) for x in data_packet]\<close>: the floats of all the
  parts, or the exception of the first part that is not a float.
\<close>

fun floats :: "(ustr \<Rightarrow> 'f option) \<Rightarrow> ustr list \<Rightarrow> error + 'f list" where
  "floats flt [] = Inr []"
| "floats flt (x # xs) =
     (case flt x of
        None \<Rightarrow> Inl ValueError
      | Some v \<Rightarrow> (case floats flt xs of Inl e \<Rightarrow> Inl e | Inr vs \<Rightarrow> Inr (v # vs)))"

section \<open>The line parser\<close>

text \<open>
  \<^verbatim>\<open>parse_arduino_data\<close>. The result is what was printed, and then \<open>Inl e\<close> when the
  exception \<open>e\<close> leaves the function, \<open>Inr None\<close> when it returns \<^verbatim>\<open>None\<close> and
  \<open>Inr (Some xs)\<close> when it returns the list \<open>xs\<close>.

  The handler of the source prints \<^verbatim>\<open>raw_data\<close>, which the first statement of the
  \<^verbatim>\<open>try\<close> block binds. When the decoding itself raises, \<^verbatim>\<open>raw_data\<close> is not
  bound, and building the text to print raises \<^verbatim>\<open>UnboundLocalError\<close> inside the
  handler, before anything is printed.
\<close>

definition parse_arduino_data ::
  "(ustr \<Rightarrow> 'f option) \<Rightarrow> bytes \<Rightarrow> 'f out list \<times> (error + 'f list option)" where
  "parse_arduino_data flt arduino_raw_data =
     (case utf8_decode arduino_raw_data of
        None \<Rightarrow> ([], Inl (UnboundLocalError ''raw_data''))
      | Some raw_data \<Rightarrow>
          (case floats flt (split 59 (strip [13, 10] raw_data)) of
             Inl err \<Rightarrow> ([Failed_parsing_row raw_data err], Inr None)
           | Inr data_packet \<Rightarrow> ([], Inr (Some data_packet))))"

section \<open>The sample reader\<close>

text \<open>
  \<^verbatim>\<open>dict(tuples)\<close>: the pairs are stored from left to right; a key that is already
  there keeps its place and takes the new value.
\<close>

definition dict :: "('k \<times> 'v) list \<Rightarrow> ('k \<times> 'v) list" where
  "dict tuples = foldl (\<lambda>d (k, v). AList.update k v d) [] tuples"

text \<open>
  \<^verbatim>\<open>get_arduino_data\<close>. \<open>formatted_time\<close> is the text of the time of the call and
  \<open>readline\<close> what \<^verbatim>\<open>serial_device.readline()\<close> does: it raises (\<open>Inl\<close>) or
  returns bytes. The call of the parser is outside of the \<^verbatim>\<open>try\<close> block, so an
  exception of the parser leaves this function too.
\<close>

definition get_arduino_data ::
  "(ustr \<Rightarrow> 'f option) \<Rightarrow> string \<Rightarrow> error + bytes
     \<Rightarrow> 'f out list \<times> (error + 'f sample option)" where
  "get_arduino_data flt formatted_time readline =
     (case readline of
        Inl err \<Rightarrow> ([Failed_reading err], Inr None)
      | Inr arduino_raw_data \<Rightarrow>
          (case parse_arduino_data flt arduino_raw_data of
             (printed, Inl e) \<Rightarrow> (printed, Inl e)
           | (printed, Inr None) \<Rightarrow>
               (printed @ [Failed_parsing_data arduino_raw_data], Inr None)
           | (printed, Inr (Some data_packet)) \<Rightarrow>
               if length data_packet \<noteq> length CSV_FIELD_NAMES - 1
               then (printed @ [Failed_parsing_data arduino_raw_data], Inr None)
               else (printed,
                     Inr (Some (dict (zip CSV_FIELD_NAMES
                                        (map Float data_packet @ [Str formatted_time])))))))"

text \<open>The code points and the bytes of a text of ASCII characters.\<close>

definition ascii :: "string \<Rightarrow> ustr" where
  "ascii s = map of_char s"

definition ascii_bytes :: "string \<Rightarrow> bytes" where
  "ascii_bytes s = map of_char s"

section \<open>The minute aggregator\<close>

text \<open>
  The reductions of a pandas column and the builtin \<^verbatim>\<open>str\<close> on their results belong
  to libraries, and are passed in a record. A column holds, for each record of the
  batch, the value of the field in it, or \<open>None\<close> where pandas fills in a missing value.
  A reduction raises (\<open>Inl\<close>) or returns a scalar of type \<open>'s\<close>.
\<close>

record ('f, 's) pandas =
  series_min :: "'f pyval option list \<Rightarrow> error + 's"
  series_max :: "'f pyval option list \<Rightarrow> error + 's"
  series_median :: "'f pyval option list \<Rightarrow> error + 's"
  str_of :: "'s \<Rightarrow> string"

text \<open>
  \<^verbatim>\<open>df[field]\<close> on \<^verbatim>\<open>df = pd.DataFrame(list_of_data_points)\<close>: the frame has
  a column for every key of some record, and asking for another one raises
  \<^verbatim>\<open>KeyError\<close>.
\<close>

definition column :: "'f sample list \<Rightarrow> string \<Rightarrow> error + 'f pyval option list" where
  "column df field =
     (if list_ex (\<lambda>r. map_of r field \<noteq> None) df
      then Inr (map (\<lambda>r. map_of r field) df)
      else Inl (KeyError field))"

definition reduce ::
  "('f pyval option list \<Rightarrow> error + 's) \<Rightarrow> 'f sample list \<Rightarrow> string \<Rightarrow> error + 's" where
  "reduce red df field = (case column df field of Inl e \<Rightarrow> Inl e | Inr col \<Rightarrow> red col)"

text \<open>
  The loop over the fields inside the \<^verbatim>\<open>try\<close> block of
  \<^verbatim>\<open>data_aggregation\<close>: it returns the dictionary as it is when the loop ends or
  when a statement raises, and the exception in that case.
\<close>

fun aggregate_fields ::
  "('f, 's) pandas \<Rightarrow> 'f sample list \<Rightarrow> string list \<Rightarrow> 't aggregate
     \<Rightarrow> 't aggregate \<times> error option" where
  "aggregate_fields pd df [] aggregated_data = (aggregated_data, None)"
| "aggregate_fields pd df (field # rest) aggregated_data =
     (if field \<noteq> ''dateTime'' then
        (case reduce (series_min pd) df field of
           Inl err \<Rightarrow> (aggregated_data, Some err)
         | Inr mn \<Rightarrow>
             let a1 = AList.update (field @ ''_min'') (Text (str_of pd mn)) aggregated_data in
             (case reduce (series_max pd) df field of
                Inl err \<Rightarrow> (a1, Some err)
              | Inr mx \<Rightarrow>
                  let a2 = AList.update (field @ ''_max'') (Text (str_of pd mx)) a1 in
                  (case reduce (series_median pd) df field of
                     Inl err \<Rightarrow> (a2, Some err)
                   | Inr md \<Rightarrow>
                       aggregate_fields pd df rest
                         (AList.update (field @ ''_median'') (Text (str_of pd md)) a2))))
      else aggregate_fields pd df rest aggregated_data)"

text \<open>
  \<^verbatim>\<open>data_aggregation\<close>. \<open>current_time\<close> is what \<^verbatim>\<open>datetime.datetime.now()\<close>
  returns at the end of the function.
\<close>

definition data_aggregation ::
  "('f, 's) pandas \<Rightarrow> 't \<Rightarrow> 'f sample list
     \<Rightarrow> 'f out list \<times> (error + 't aggregate)" where
  "data_aggregation pd current_time list_of_data_points =
     (case aggregate_fields pd list_of_data_points CSV_FIELD_NAMES [] of
        (aggregated_data, None) \<Rightarrow>
          ([], Inr (AList.update ''dateTime'' (Stamp current_time) aggregated_data))
      | (aggregated_data, Some err) \<Rightarrow>
          ([Failed_aggregating, Batch list_of_data_points, Hashes, ERROR_line, Err err],
           Inr (AList.update ''dateTime'' (Stamp current_time) aggregated_data)))"

section \<open>The minute loop\<close>

text \<open>
  A time is a number of microseconds, and so is the difference of two times.
  \<^verbatim>\<open>.seconds\<close> is the seconds field of a \<^verbatim>\<open>timedelta\<close>: the whole seconds
  that remain when the whole days are taken away.
\<close>

definition td_seconds :: "int \<Rightarrow> int" where
  "td_seconds d = (d div 1000000) mod 86400"

text \<open>
  What the loop meets: what the \<open>k\<close>-th call of \<^verbatim>\<open>readline\<close> does, the text of the
  time of the \<open>k\<close>-th read, and the time at the test that follows the \<open>k\<close>-th read.
\<close>

record world =
  serial_readline :: "nat \<Rightarrow> error + bytes"
  read_time :: "nat \<Rightarrow> string"
  check_time :: "nat \<Rightarrow> int"

text \<open>
  The loop \<^verbatim>\<open>while True\<close> that fills \<^verbatim>\<open>data_from_last_minute\<close>, from the \<open>k\<close>-th
  read on. \<open>None\<close> is a loop that never ends, \<open>Some (Inl e)\<close> an exception that leaves
  the loop, \<open>Some (Inr xs)\<close> the list at the \<^verbatim>\<open>break\<close>.
\<close>

partial_function (option) minute_loop ::
  "(ustr \<Rightarrow> 'f option) \<Rightarrow> world \<Rightarrow> int \<Rightarrow> nat \<Rightarrow> 'f sample list
     \<Rightarrow> (error + 'f sample list) option" where
  "minute_loop flt w minute_loop_start_time k data_from_last_minute =
     (case snd (get_arduino_data flt (read_time w k) (serial_readline w k)) of
        Inl e \<Rightarrow> Some (Inl e)
      | Inr None \<Rightarrow> minute_loop flt w minute_loop_start_time (Suc k) data_from_last_minute
      | Inr (Some data) \<Rightarrow>
          if td_seconds (check_time w k - minute_loop_start_time) \<ge> 60
          then Some (Inr (data_from_last_minute @ [data]))
          else minute_loop flt w minute_loop_start_time (Suc k)
                 (data_from_last_minute @ [data]))"

section \<open>The configuration and the name of the file\<close>

text \<open>
  A value of the configuration, read from YAML: \<^verbatim>\<open>None\<close>, a bool, an int, a text, or
  any other object, of which only the text that \<^verbatim>\<open>str\<close> makes is kept.
\<close>

datatype yaml = YNone | YBool bool | YInt int | YStr string | YObj string

type_synonym config = "string \<rightharpoonup> yaml"

definition get :: "config \<Rightarrow> string \<Rightarrow> yaml \<Rightarrow> yaml" where
  "get config_data key dflt = (case config_data key of None \<Rightarrow> dflt | Some v \<Rightarrow> v)"

text \<open>\<^verbatim>\<open>str\<close> of an int: its decimal digits, after the sign when it is negative.\<close>

definition digit :: "nat \<Rightarrow> char" where
  "digit d = ''0123456789'' ! d"

fun str_nat :: "nat \<Rightarrow> string" where
  "str_nat n = (if n < 10 then [digit n] else str_nat (n div 10) @ [digit (n mod 10)])"

declare str_nat.simps [simp del]

definition str_int :: "int \<Rightarrow> string" where
  "str_int i = (if i < 0 then ''-'' @ str_nat (nat (- i)) else str_nat (nat i))"

fun str_yaml :: "yaml \<Rightarrow> string" where
  "str_yaml YNone = ''None''"
| "str_yaml (YBool b) = (if b then ''True'' else ''False'')"
| "str_yaml (YInt i) = str_int i"
| "str_yaml (YStr s) = s"
| "str_yaml (YObj s) = s"

text \<open>\<^verbatim>\<open>type(v) == type(1)\<close>: a bool is not an int.\<close>

fun is_int :: "yaml \<Rightarrow> bool" where
  "is_int (YInt i) = True"
| "is_int _ = False"

text \<open>
  The part that the three texts of the file name share,
  \<^verbatim>\<open>cage_{str(config_data['cage_id'])}_{config_data['bird_name']}_{curr_time}\<close>.
\<close>

definition name_prefix :: "config \<Rightarrow> string \<Rightarrow> error + string" where
  "name_prefix config_data curr_time =
     (case config_data ''cage_id'' of
        None \<Rightarrow> Inl (KeyError ''cage_id'')
      | Some cage_id \<Rightarrow>
          (case config_data ''bird_name'' of
             None \<Rightarrow> Inl (KeyError ''bird_name'')
           | Some bird_name \<Rightarrow>
               Inr (''cage_'' @ str_yaml cage_id @ ''_'' @ str_yaml bird_name @ ''_''
                    @ curr_time)))"

definition with_suffix :: "error + string \<Rightarrow> string \<Rightarrow> error + string" where
  "with_suffix prefix suffix = (case prefix of Inl e \<Rightarrow> Inl e | Inr p \<Rightarrow> Inr (p @ suffix))"

text \<open>
  The choice of \<^verbatim>\<open>file_name\<close> in the flush. When no branch is taken the name is not
  bound, and its use in the next statement raises \<^verbatim>\<open>NameError\<close>.
\<close>

definition flush_file_name :: "config \<Rightarrow> string \<Rightarrow> error + string" where
  "flush_file_name config_data curr_time =
     (let days_offset = get config_data ''days_offset'' (YInt 0);
          stable_date = get config_data ''stable_date'' (YInt 0);
          sunrise = get config_data ''sunrise'' (YInt 0);
          sunset = get config_data ''sunset'' (YInt 0)
      in if sunrise \<noteq> YNone \<and> sunset \<noteq> YNone then
           with_suffix (name_prefix config_data curr_time) ''_manually_set.csv''
         else if stable_date \<noteq> YNone then
           with_suffix (name_prefix config_data curr_time)
             (''_stable_date_'' @ str_yaml stable_date @ ''.csv'')
         else if is_int days_offset then
           with_suffix (name_prefix config_data curr_time)
             (''_Days_offset_'' @ str_yaml days_offset @ ''.csv'')
         else Inl (NameError ''file_name''))"

section \<open>The hourly batch\<close>

record 't hour_state =
  data_from_last_hour :: "'t aggregate list"
  hour_loop_start_time :: int

text \<open>The file written by a flush: the directory, the name and the rows.\<close>

datatype 't written = Written yaml string "'t aggregate list"

text \<open>
  Lines 219 to 249 of the script: the new aggregate is appended, and the batch is written
  when \<^verbatim>\<open>minutes_since_start >= FILE_WRITE_DELAY_MINS\<close>. \<open>now\<close> is the time at the
  test, \<open>curr_time\<close> the text of the time in the file name, \<open>to_csv\<close> the exception
  that joining the path and writing the file raise, if any, and \<open>now'\<close> the time after
  the file was written. An exception met while the text of the name is built leaves the
  step at once. A name that no branch has bound raises only at its use in
  \<^verbatim>\<open>os.path.join(config_data["dataOutputBasePath"], file_name)\<close>, whose first
  argument is evaluated before it: when the directory is missing too, the
  \<^verbatim>\<open>KeyError\<close> of the directory is the exception raised.
  The division of Python is the float nearest to the quotient;
  as 3 is a float and rounding is monotone, comparing the exact quotient with 3 gives
  the same result.
\<close>

definition hour_step ::
  "config \<Rightarrow> int \<Rightarrow> string \<Rightarrow> error option \<Rightarrow> int \<Rightarrow> 't hour_state \<Rightarrow> 't aggregate
     \<Rightarrow> error + 't hour_state \<times> 't written option" where
  "hour_step config_data now curr_time to_csv now' st aggregated_data =
     (let batch = data_from_last_hour st @ [aggregated_data];
          minutes_since_start = (of_int (td_seconds (now - hour_loop_start_time st)) :: rat) / 60
      in if minutes_since_start \<ge> of_nat FILE_WRITE_DELAY_MINS then
           (case flush_file_name config_data curr_time of
              Inl (NameError name) \<Rightarrow>
                (case config_data ''dataOutputBasePath'' of
                   None \<Rightarrow> Inl (KeyError ''dataOutputBasePath'')
                 | Some base \<Rightarrow> Inl (NameError name))
            | Inl e \<Rightarrow> Inl e
            | Inr file_name \<Rightarrow>
                (case config_data ''dataOutputBasePath'' of
                   None \<Rightarrow> Inl (KeyError ''dataOutputBasePath'')
                 | Some base \<Rightarrow>
                     (case to_csv of
                        Some e \<Rightarrow> Inl e
                      | None \<Rightarrow>
                          Inr (\<lparr>data_from_last_hour = [], hour_loop_start_time = now'\<rparr>,
                               Some (Written base file_name batch)))))
         else Inr (st\<lparr>data_from_last_hour := batch\<rparr>, None))"

section \<open>Values for the examples\<close>

text \<open>
  The examples below run the aggregator with whole numbers in the place of floats, and
  with these reductions in the place of the library: the least and the greatest number
  of a column, the middle of the sorted column (the half of the sum of the two middle
  numbers when their count is even), and the digits of a number followed by
  \<^verbatim>\<open>.0\<close> as its text.
\<close>

fun numbers :: "int pyval option list \<Rightarrow> int list" where
  "numbers [] = []"
| "numbers (Some (Float v) # col) = v # numbers col"
| "numbers (_ # col) = numbers col"

definition middle :: "int list \<Rightarrow> int" where
  "middle xs =
     (let s = sort xs; n = length s
      in if odd n then s ! (n div 2) else (s ! (n div 2 - 1) + s ! (n div 2)) div 2)"

definition whole_numbers :: "(int, int) pandas" where
  "whole_numbers =
     \<lparr>series_min = (\<lambda>col. Inr (Min (set (numbers col)))),
      series_max = (\<lambda>col. Inr (Max (set (numbers col)))),
      series_median = (\<lambda>col. Inr (middle (numbers col))),
      str_of = (\<lambda>i. str_int i @ ''.0'')\<rparr>"







definition minute_without_off :: "int sample list" where
  "minute_without_off =
     [[(''lights_on_time'', Float 50), (''dateTime'', Str ''2024_01_01_12_00_00.000000'')],
      [(''lights_on_time'', Float 52), (''dateTime'', Str ''2024_01_01_12_00_01.000000'')],
      [(''lights_on_time'', Float 51), (''dateTime'', Str ''2024_01_01_12_00_02.000000'')]]"

section \<open>Properties of the line parser\<close>

lemma floats_all: "floats flt ps = Inr xs \<Longrightarrow> map flt ps = map Some xs"
  by (induction ps arbitrary: xs) (auto split: option.splits sum.splits)

lemma floats_fail: "floats flt ps = Inl e \<Longrightarrow> e = ValueError \<and> (\<exists>p\<in>set ps. flt p = None)"
  by (induction ps) (auto split: option.splits sum.splits)

text \<open>
  When the bytes decode, the parser returns the floats of all the parts, or
  \<^verbatim>\<open>None\<close> as soon as one part is not a float.
\<close>

lemma parse_arduino_data_decoded:
  assumes "utf8_decode raw = Some s"
  shows "snd (parse_arduino_data flt raw) =
     (if \<exists>p\<in>set (split 59 (strip [13, 10] s)). flt p = None then Inr None
      else Inr (Some (map (\<lambda>p. the (flt p)) (split 59 (strip [13, 10] s)))))"
proof (cases "floats flt (split 59 (strip [13, 10] s))")
  case (Inl e)
  with floats_fail [OF Inl] assms show ?thesis
    by (auto simp: parse_arduino_data_def)
next
  case (Inr xs)
  from floats_all [OF Inr] have m: "map flt (split 59 (strip [13, 10] s)) = map Some xs" .
  have "\<forall>p\<in>set (split 59 (strip [13, 10] s)). flt p \<noteq> None"
  proof
    fix p assume "p \<in> set (split 59 (strip [13, 10] s))"
    then have "flt p \<in> set (map flt (split 59 (strip [13, 10] s)))" by simp
    with m show "flt p \<noteq> None" by auto
  qed
  moreover have "map (\<lambda>p. the (flt p)) (split 59 (strip [13, 10] s)) = xs"
  proof -
    have "map (\<lambda>p. the (flt p)) (split 59 (strip [13, 10] s))
          = map the (map flt (split 59 (strip [13, 10] s)))" by simp
    also have "\<dots> = xs" unfolding m by (simp add: comp_def)
    finally show ?thesis .
  qed
  ultimately show ?thesis using Inr assms
    by (auto simp: parse_arduino_data_def)
qed

text \<open>
  C3. The claim is that the line parser returns all the floats or \<^verbatim>\<open>None\<close> and
  never raises, also when the decoding fails. On the two bytes \<open>0xFF 0x0A\<close>, which are
  not UTF-8, the decoding raises before \<^verbatim>\<open>raw_data\<close> is bound, the handler raises
  \<^verbatim>\<open>UnboundLocalError\<close> when it builds its message, and that exception leaves the
  parser: nothing is printed and nothing is returned.
\<close>

theorem parse_arduino_data_undecodable:
  "parse_arduino_data flt [0xFF, 0x0A] = ([], Inl (UnboundLocalError ''raw_data''))"
  by (simp add: parse_arduino_data_def)

section \<open>Properties of the sample reader\<close>

text \<open>
  C1. The claim is that the line \<^verbatim>\<open>50;300\<close> gives the record that binds
  \<^verbatim>\<open>lights_on_time\<close> to 50.0, \<^verbatim>\<open>lights_off_time\<close> to 300.0 and
  \<^verbatim>\<open>dateTime\<close> to the time of the read. The code zips the values with
  \<^verbatim>\<open>CSV_FIELD_NAMES\<close>, where \<^verbatim>\<open>dateTime\<close> comes first: the record binds
  \<^verbatim>\<open>dateTime\<close> to 50.0, \<^verbatim>\<open>lights_on_time\<close> to 300.0 and
  \<^verbatim>\<open>lights_off_time\<close> to the time of the read.
\<close>

theorem get_arduino_data_50_300:
  "flt (ascii ''50'') = Some a \<Longrightarrow> flt (ascii ''300'') = Some b \<Longrightarrow>
   get_arduino_data flt formatted_time (Inr (ascii_bytes ''50;300'')) =
     ([], Inr (Some [(''dateTime'', Float a), (''lights_on_time'', Float b),
                     (''lights_off_time'', Str formatted_time)]))"
  by (simp add: get_arduino_data_def parse_arduino_data_def ascii_def ascii_bytes_def
      split_def strip_def CSV_FIELD_NAMES_def dict_def)

theorem get_arduino_data_50_300_witness:
  "[ascii ''50'' \<mapsto> 50 :: rat, ascii ''300'' \<mapsto> 300] (ascii ''50'') = Some 50 \<and>
   [ascii ''50'' \<mapsto> 50 :: rat, ascii ''300'' \<mapsto> 300] (ascii ''300'') = Some 300 \<and>
   get_arduino_data [ascii ''50'' \<mapsto> 50 :: rat, ascii ''300'' \<mapsto> 300]
      ''2024_01_01_12_00_00.000000'' (Inr (ascii_bytes ''50;300'')) =
     ([], Inr (Some [(''dateTime'', Float 50), (''lights_on_time'', Float 300),
                     (''lights_off_time'', Str ''2024_01_01_12_00_00.000000'')]))"
  using get_arduino_data_50_300
    [of "[ascii ''50'' \<mapsto> 50 :: rat, ascii ''300'' \<mapsto> 300]" 50 300
      "''2024_01_01_12_00_00.000000''"]
  by (simp add: ascii_def)

text \<open>
  C8. When the parser returns a list whose length is not the number of the fields of
  the schema minus one, the sample reader prints the message that embeds the bytes it
  read and returns \<^verbatim>\<open>None\<close>: no record is returned.
\<close>

theorem get_arduino_data_wrong_length:
  assumes "snd (parse_arduino_data flt raw) = Inr (Some xs)"
    and "length xs \<noteq> length CSV_FIELD_NAMES - 1"
  shows "get_arduino_data flt formatted_time (Inr raw) = ([Failed_parsing_data raw], Inr None)"
  using assms
  by (auto simp: get_arduino_data_def parse_arduino_data_def split: option.splits sum.splits)

theorem get_arduino_data_wrong_length_witness:
  "snd (parse_arduino_data
          [ascii ''50'' \<mapsto> 50 :: rat, ascii ''300'' \<mapsto> 300, ascii ''14.6'' \<mapsto> 73 / 5]
          (ascii_bytes ''50;300;14.6''))
     = Inr (Some [50, 300, 73 / 5])
   \<and> length [50, 300, 73 / 5 :: rat] \<noteq> length CSV_FIELD_NAMES - 1
   \<and> get_arduino_data
        [ascii ''50'' \<mapsto> 50 :: rat, ascii ''300'' \<mapsto> 300, ascii ''14.6'' \<mapsto> 73 / 5]
        ''2024_01_01_12_00_00.000000'' (Inr (ascii_bytes ''50;300;14.6''))
     = ([Failed_parsing_data (ascii_bytes ''50;300;14.6'')], Inr None)"
proof -
  have p: "snd (parse_arduino_data
          [ascii ''50'' \<mapsto> 50 :: rat, ascii ''300'' \<mapsto> 300, ascii ''14.6'' \<mapsto> 73 / 5]
          (ascii_bytes ''50;300;14.6''))
     = Inr (Some [50, 300, 73 / 5])"
    by (simp add: parse_arduino_data_def ascii_def ascii_bytes_def split_def strip_def)
  have l: "length [50, 300, 73 / 5 :: rat] \<noteq> length CSV_FIELD_NAMES - 1"
    by (simp add: CSV_FIELD_NAMES_def)
  from get_arduino_data_wrong_length [OF p l] p l show ?thesis by blast
qed

text \<open>
  Every record that the sample reader returns comes from a list of that length and has
  all the keys of the schema, in their order.
\<close>

lemma get_arduino_data_record:
  assumes "snd (get_arduino_data flt formatted_time rl) = Inr (Some r)"
  shows "\<exists>raw xs. rl = Inr raw
           \<and> snd (parse_arduino_data flt raw) = Inr (Some xs)
           \<and> length xs = length CSV_FIELD_NAMES - 1
           \<and> r = zip CSV_FIELD_NAMES (map Float xs @ [Str formatted_time])
           \<and> map fst r = CSV_FIELD_NAMES"
  using assms
  by (auto simp: get_arduino_data_def CSV_FIELD_NAMES_def dict_def length_Suc_conv
      split: option.splits sum.splits prod.splits if_splits)

section \<open>Properties of the name of the file\<close>

text \<open>
  C10. When the keys \<^verbatim>\<open>sunrise\<close> and \<^verbatim>\<open>sunset\<close> are absent from the
  configuration, \<^verbatim>\<open>get\<close> gives 0 for each, which is not \<^verbatim>\<open>None\<close>, and the name
  takes the suffix \<^verbatim>\<open>_manually_set.csv\<close>, whatever the configuration holds for
  \<^verbatim>\<open>stable_date\<close> and \<^verbatim>\<open>days_offset\<close>.
\<close>

theorem flush_file_name_absent_keys:
  "config_data ''sunrise'' = None \<Longrightarrow> config_data ''sunset'' = None \<Longrightarrow>
   flush_file_name config_data curr_time =
     with_suffix (name_prefix config_data curr_time) ''_manually_set.csv''"
  by (simp add: flush_file_name_def get_def)

theorem flush_file_name_absent_keys_witness:
  "flush_file_name [''stable_date'' \<mapsto> YStr ''2024-03-01'', ''days_offset'' \<mapsto> YInt 5,
      ''cage_id'' \<mapsto> YInt 7, ''bird_name'' \<mapsto> YStr ''zebra''] ''20240101_12_00_00''
   = Inr ''cage_7_zebra_20240101_12_00_00_manually_set.csv''"
  using flush_file_name_absent_keys
    [of "[''stable_date'' \<mapsto> YStr ''2024-03-01'', ''days_offset'' \<mapsto> YInt 5,
          ''cage_id'' \<mapsto> YInt 7, ''bird_name'' \<mapsto> YStr ''zebra'']" "''20240101_12_00_00''"]
  by (simp add: with_suffix_def name_prefix_def str_int_def str_nat.simps digit_def)

text \<open>
  C2, as stated, fails: with \<^verbatim>\<open>sunrise\<close> and \<^verbatim>\<open>sunset\<close> set to
  \<^verbatim>\<open>None\<close>, no \<^verbatim>\<open>stable_date\<close> and \<^verbatim>\<open>days_offset\<close> set to 5, the claim
  gives the suffix of the offset of 5 days, and the code gives the suffix of the stable
  date 0, since \<^verbatim>\<open>get\<close> gives 0 for the absent key.
\<close>

theorem flush_file_name_stable_date_default:
  "flush_file_name [''sunrise'' \<mapsto> YNone, ''sunset'' \<mapsto> YNone, ''days_offset'' \<mapsto> YInt 5,
      ''cage_id'' \<mapsto> YInt 7, ''bird_name'' \<mapsto> YStr ''zebra''] ''20240101_12_00_00''
     = Inr ''cage_7_zebra_20240101_12_00_00_stable_date_0.csv''
   \<and> flush_file_name [''sunrise'' \<mapsto> YNone, ''sunset'' \<mapsto> YNone, ''days_offset'' \<mapsto> YInt 5,
      ''cage_id'' \<mapsto> YInt 7, ''bird_name'' \<mapsto> YStr ''zebra''] ''20240101_12_00_00''
     \<noteq> Inr ''cage_7_zebra_20240101_12_00_00_Days_offset_5.csv''"
  by (simp add: flush_file_name_def get_def with_suffix_def name_prefix_def str_int_def
      str_nat.simps digit_def)

text \<open>
  C2, amended. A key counts as set unless the configuration binds it to
  \<^verbatim>\<open>None\<close>; an absent key stands for 0. When \<^verbatim>\<open>sunrise\<close> and
  \<^verbatim>\<open>sunset\<close> are both set, the suffix is \<^verbatim>\<open>_manually_set.csv\<close>; otherwise,
  when \<^verbatim>\<open>stable_date\<close> is set, the suffix embeds its value; otherwise, when the
  value of \<^verbatim>\<open>days_offset\<close> is an int, the suffix embeds it. The theorem is about
  the configurations in which one of the three cases holds.
\<close>

theorem flush_file_name_priority:
  assumes "(config_data ''sunrise'' \<noteq> Some YNone \<and> config_data ''sunset'' \<noteq> Some YNone)
           \<or> config_data ''stable_date'' \<noteq> Some YNone
           \<or> is_int (get config_data ''days_offset'' (YInt 0))"
  shows "flush_file_name config_data curr_time =
     (if config_data ''sunrise'' \<noteq> Some YNone \<and> config_data ''sunset'' \<noteq> Some YNone
      then with_suffix (name_prefix config_data curr_time) ''_manually_set.csv''
      else if config_data ''stable_date'' \<noteq> Some YNone
      then with_suffix (name_prefix config_data curr_time)
             (''_stable_date_'' @ str_yaml (get config_data ''stable_date'' (YInt 0)) @ ''.csv'')
      else with_suffix (name_prefix config_data curr_time)
             (''_Days_offset_'' @ str_yaml (get config_data ''days_offset'' (YInt 0)) @ ''.csv''))"
  using assms
  by (auto simp: flush_file_name_def get_def Let_def split: option.splits)

theorem flush_file_name_priority_witness:
  "flush_file_name [''sunrise'' \<mapsto> YInt 0, ''sunset'' \<mapsto> YInt 0,
      ''stable_date'' \<mapsto> YStr ''2024-03-01'', ''days_offset'' \<mapsto> YInt 5,
      ''cage_id'' \<mapsto> YInt 7, ''bird_name'' \<mapsto> YStr ''zebra''] ''20240101_12_00_00''
   = Inr ''cage_7_zebra_20240101_12_00_00_manually_set.csv''"
  using flush_file_name_priority
    [of "[''sunrise'' \<mapsto> YInt 0, ''sunset'' \<mapsto> YInt 0,
          ''stable_date'' \<mapsto> YStr ''2024-03-01'', ''days_offset'' \<mapsto> YInt 5,
          ''cage_id'' \<mapsto> YInt 7, ''bird_name'' \<mapsto> YStr ''zebra'']" "''20240101_12_00_00''"]
  by (simp add: with_suffix_def name_prefix_def str_int_def str_nat.simps digit_def)

text \<open>
  When none of the three cases holds, no name is bound and the flush raises
  \<^verbatim>\<open>NameError\<close>.
\<close>

lemma flush_file_name_unbound:
  assumes "config_data ''sunrise'' = Some YNone \<or> config_data ''sunset'' = Some YNone"
    and "config_data ''stable_date'' = Some YNone"
    and "\<not> is_int (get config_data ''days_offset'' (YInt 0))"
  shows "flush_file_name config_data curr_time = Inl (NameError ''file_name'')"
  using assms by (auto simp: flush_file_name_def get_def Let_def)

section \<open>Properties of the hourly batch\<close>

text \<open>Below one day, the seconds field is the number of whole seconds.\<close>

lemma td_seconds_below_a_day:
  "0 \<le> d \<Longrightarrow> d < 86400000000 \<Longrightarrow> td_seconds d = d div 1000000"
  by (simp add: td_seconds_def zdiv_mono1 div_less_iff_less_mult)

lemma hour_step_flush:
  assumes "180 \<le> td_seconds (now - hour_loop_start_time st)"
    and "flush_file_name config_data curr_time = Inr file_name"
    and "config_data ''dataOutputBasePath'' = Some base"
  shows "hour_step config_data now curr_time None now' st aggregated_data =
     Inr (\<lparr>data_from_last_hour = [], hour_loop_start_time = now'\<rparr>,
          Some (Written base file_name (data_from_last_hour st @ [aggregated_data])))"
  using assms by (simp add: hour_step_def FILE_WRITE_DELAY_MINS_def Let_def)

lemma hour_step_no_flush:
  assumes "td_seconds (now - hour_loop_start_time st) < 180"
  shows "hour_step config_data now curr_time to_csv now' st aggregated_data =
     Inr (st\<lparr>data_from_last_hour := data_from_last_hour st @ [aggregated_data]\<rparr>, None)"
  using assms by (simp add: hour_step_def FILE_WRITE_DELAY_MINS_def Let_def)

text \<open>
  At a flush with no name bound and no directory configured, the lookup of the directory
  raises first.
\<close>

lemma hour_step_unbound_name:
  assumes "180 \<le> td_seconds (now - hour_loop_start_time st)"
    and "flush_file_name config_data curr_time = Inl (NameError name)"
  shows "hour_step config_data now curr_time to_csv now' st aggregated_data =
     (case config_data ''dataOutputBasePath'' of
        None \<Rightarrow> Inl (KeyError ''dataOutputBasePath'')
      | Some base \<Rightarrow> Inl (NameError name))"
  using assms by (simp add: hour_step_def FILE_WRITE_DELAY_MINS_def Let_def)

text \<open>
  C6. The claim is that the batch is written exactly when the time since the start of
  the batch has reached the delay of 3 minutes. The code compares the seconds field of
  the difference, which starts again from 0 every day: one day and 30 seconds after
  the start of the batch (86430 seconds), the test fails, nothing is written and the
  batch and its start stay as they are.
\<close>

theorem hour_step_after_a_day:
  "hour_step config_data 86430000000 curr_time to_csv now'
      \<lparr>data_from_last_hour = batch, hour_loop_start_time = 0\<rparr> aggregated_data
   = Inr (\<lparr>data_from_last_hour = batch @ [aggregated_data], hour_loop_start_time = 0\<rparr>, None)"
  by (simp add: hour_step_def td_seconds_def FILE_WRITE_DELAY_MINS_def)

section \<open>Properties of the minute loop\<close>

text \<open>
  The rule of partial correctness of the loop, with the premise that the loop returns
  put first.
\<close>

lemmas minute_loop_induct = minute_loop.raw_induct [rotated 1, consumes 1, case_names step]

text \<open>A loop that returns has met a read that was not rejected.\<close>

lemma minute_loop_returns_read:
  assumes "minute_loop flt w start k buf0 = Some y"
  shows "\<exists>j. snd (get_arduino_data flt (read_time w j) (serial_readline w j)) \<noteq> Inr None"
  using assms
proof (induction rule: minute_loop_induct)
  case (step f flt w start k buf0 y)
  show ?case
  proof (cases "snd (get_arduino_data flt (read_time w k) (serial_readline w k)) = Inr None")
    case True
    with step(2) have "f flt w start (Suc k) buf0 = Some y" by simp
    from step(1) [OF this] show ?thesis .
  next
    case False
    then show ?thesis by (rule exI)
  qed
qed

lemma minute_loop_rejected:
  assumes "\<And>j. snd (get_arduino_data flt (read_time w j) (serial_readline w j)) = Inr None"
  shows "minute_loop flt w start k buf0 = None"
proof (cases "minute_loop flt w start k buf0")
  case None
  then show ?thesis .
next
  case (Some y)
  from minute_loop_returns_read [OF Some] assms show ?thesis by simp
qed

text \<open>
  A line of three values, as in the example of the docstring of the parser, is rejected
  whatever \<^verbatim>\<open>float\<close> does: either a part is not a float, or there are three floats
  where two are expected.
\<close>

lemma three_values_rejected:
  "snd (get_arduino_data flt formatted_time (Inr (ascii_bytes ''50;300;14.6'' @ [0x0A])))
   = Inr None"
  by (simp add: get_arduino_data_def parse_arduino_data_def ascii_def ascii_bytes_def
      split_def strip_def CSV_FIELD_NAMES_def split: option.splits sum.splits)

text \<open>
  C4. The claim is that the loop ends once about 60 seconds have passed, also when
  every read is rejected. A rejected read takes the \<^verbatim>\<open>continue\<close>, which skips the
  test of the time: when the device sends the line \<^verbatim>\<open>50;300;14.6\<close> at every read,
  the loop never ends, whatever the clock shows.
\<close>

theorem minute_loop_never_exits:
  "minute_loop flt
     \<lparr>serial_readline = \<lambda>k. Inr (ascii_bytes ''50;300;14.6'' @ [0x0A]),
      read_time = formatted_time, check_time = now\<rparr>
     minute_loop_start_time k data_from_last_minute = None"
  by (rule minute_loop_rejected) (simp add: three_values_rejected)

text \<open>
  The loop does end when, after reads that are rejected, a read gives a sample at a
  time whose seconds field is at least 60.
\<close>

lemma minute_loop_terminates:
  assumes "\<And>i. k \<le> i \<Longrightarrow> i < j \<Longrightarrow>
             snd (get_arduino_data flt (read_time w i) (serial_readline w i)) = Inr None"
    and "snd (get_arduino_data flt (read_time w j) (serial_readline w j)) = Inr (Some d)"
    and "60 \<le> td_seconds (check_time w j - start)"
    and "k \<le> j"
  shows "minute_loop flt w start k buf0 = Some (Inr (buf0 @ [d]))"
  using assms
proof (induction "j - k" arbitrary: k)
  case 0
  then have "k = j" by simp
  with 0 show ?case by (subst minute_loop.simps) simp
next
  case (Suc n)
  then have "k < j" by simp
  with Suc.prems(1) [of k]
  have "snd (get_arduino_data flt (read_time w k) (serial_readline w k)) = Inr None" by simp
  moreover have "minute_loop flt w start (Suc k) buf0 = Some (Inr (buf0 @ [d]))"
  proof (rule Suc.hyps(1))
    from Suc.hyps(2) show "n = j - Suc k" by simp
    show "\<And>i. Suc k \<le> i \<Longrightarrow> i < j \<Longrightarrow>
            snd (get_arduino_data flt (read_time w i) (serial_readline w i)) = Inr None"
      using Suc.prems(1) by simp
    show "snd (get_arduino_data flt (read_time w j) (serial_readline w j)) = Inr (Some d)"
      by (rule Suc.prems(2))
    show "60 \<le> td_seconds (check_time w j - start)" by (rule Suc.prems(3))
    from \<open>k < j\<close> show "Suc k \<le> j" by simp
  qed
  ultimately show ?case by (subst minute_loop.simps) simp
qed

lemma minute_loop_exit:
  assumes "minute_loop flt w start k buf0 = Some y"
  shows "\<forall>buf. y = Inr buf \<longrightarrow> (\<exists>j ys d. k \<le> j \<and> buf = buf0 @ ys @ [d]
           \<and> snd (get_arduino_data flt (read_time w j) (serial_readline w j)) = Inr (Some d)
           \<and> 60 \<le> td_seconds (check_time w j - start))"
  using assms
proof (induction rule: minute_loop_induct)
  case (step f flt w start k buf0 y)
  show ?case
  proof (cases "snd (get_arduino_data flt (read_time w k) (serial_readline w k))")
    case (Inl e)
    with step(2) show ?thesis by auto
  next
    case (Inr r)
    show ?thesis
    proof (cases r)
      case None
      with Inr step(2) have "f flt w start (Suc k) buf0 = Some y" by simp
      from step(1) [OF this] show ?thesis
        using Suc_leD by blast
    next
      case (Some d)
      show ?thesis
      proof (cases "60 \<le> td_seconds (check_time w k - start)")
        case True
        with Inr Some step(2) have "y = Inr (buf0 @ [d])" by simp
        with Inr Some True show ?thesis
          by (intro allI impI exI [of _ k] exI [of _ "[]"] exI [of _ d]) simp
      next
        case False
        with Inr Some step(2) have "f flt w start (Suc k) (buf0 @ [d]) = Some y" by simp
        from step(1) [OF this]
        have ih: "\<forall>buf. y = Inr buf \<longrightarrow>
            (\<exists>j ys d'. Suc k \<le> j \<and> buf = (buf0 @ [d]) @ ys @ [d']
               \<and> snd (get_arduino_data flt (read_time w j) (serial_readline w j)) = Inr (Some d')
               \<and> 60 \<le> td_seconds (check_time w j - start))" .
        show ?thesis
        proof (intro allI impI)
          fix buf assume "y = Inr buf"
          with ih obtain j ys d' where
            h: "Suc k \<le> j" "buf = (buf0 @ [d]) @ ys @ [d']"
              "snd (get_arduino_data flt (read_time w j) (serial_readline w j)) = Inr (Some d')"
              "60 \<le> td_seconds (check_time w j - start)" by blast
          then have "k \<le> j" "buf = buf0 @ (d # ys) @ [d']" by simp_all
          with h(3,4) show "\<exists>j ys d. k \<le> j \<and> buf = buf0 @ ys @ [d]
             \<and> snd (get_arduino_data flt (read_time w j) (serial_readline w j)) = Inr (Some d)
             \<and> 60 \<le> td_seconds (check_time w j - start)" by blast
        qed
      qed
    qed
  qed
qed

text \<open>
  C9. The list that the loop hands over at its \<^verbatim>\<open>break\<close>, which is the list that
  the main loop passes to the aggregator, is not empty: it ends with the sample of the
  read after which the loop was left.
\<close>

theorem minute_loop_exit_after_append:
  assumes "minute_loop flt w minute_loop_start_time k data_from_last_minute
           = Some (Inr buffer)"
  shows "buffer \<noteq> [] \<and> (\<exists>j ys d. k \<le> j \<and> buffer = data_from_last_minute @ ys @ [d]
           \<and> snd (get_arduino_data flt (read_time w j) (serial_readline w j)) = Inr (Some d)
           \<and> 60 \<le> td_seconds (check_time w j - minute_loop_start_time))"
proof -
  from minute_loop_exit [OF assms] obtain j ys d where
    h: "k \<le> j" "buffer = data_from_last_minute @ ys @ [d]"
       "snd (get_arduino_data flt (read_time w j) (serial_readline w j)) = Inr (Some d)"
       "60 \<le> td_seconds (check_time w j - minute_loop_start_time)" by blast
  from h(2) have "buffer \<noteq> []" by simp
  with h show ?thesis by blast
qed

theorem minute_loop_exit_after_append_witness:
  "minute_loop [ascii ''50'' \<mapsto> 50 :: rat, ascii ''300'' \<mapsto> 300]
      \<lparr>serial_readline = \<lambda>k. Inr (ascii_bytes ''50;300''),
       read_time = \<lambda>k. ''2024_01_01_12_00_00.000000'', check_time = \<lambda>k. 60000000\<rparr> 0 0 []
     = Some (Inr [[(''dateTime'', Float 50), (''lights_on_time'', Float 300),
                   (''lights_off_time'', Str ''2024_01_01_12_00_00.000000'')]])
   \<and> [[(''dateTime'', Float (50 :: rat)), (''lights_on_time'', Float 300),
        (''lights_off_time'', Str ''2024_01_01_12_00_00.000000'')]] \<noteq> []"
proof -
  have run: "minute_loop [ascii ''50'' \<mapsto> 50 :: rat, ascii ''300'' \<mapsto> 300]
      \<lparr>serial_readline = \<lambda>k. Inr (ascii_bytes ''50;300''),
       read_time = \<lambda>k. ''2024_01_01_12_00_00.000000'', check_time = \<lambda>k. 60000000\<rparr> 0 0 []
     = Some (Inr [[(''dateTime'', Float 50), (''lights_on_time'', Float 300),
                   (''lights_off_time'', Str ''2024_01_01_12_00_00.000000'')]])"
    by (subst minute_loop.simps)
      (simp add: get_arduino_data_def parse_arduino_data_def ascii_def ascii_bytes_def
        split_def strip_def CSV_FIELD_NAMES_def dict_def td_seconds_def)
  from minute_loop_exit_after_append [OF run] run show ?thesis by blast
qed

section \<open>Properties of the minute aggregator\<close>

lemma column_present:
  assumes "df \<noteq> []" and "\<forall>r\<in>set df. map_of r field \<noteq> None"
  shows "column df field = Inr (map (\<lambda>r. map_of r field) df)"
proof -
  from assms obtain r where "r \<in> set df" "map_of r field \<noteq> None"
    by (cases df) auto
  then show ?thesis by (auto simp: column_def list_ex_iff)
qed

lemma column_some:
  assumes "\<exists>r\<in>set df. map_of r field \<noteq> None"
  shows "column df field = Inr (map (\<lambda>r. map_of r field) df)"
  using assms by (auto simp: column_def list_ex_iff)

lemma column_absent:
  assumes "\<forall>r\<in>set df. map_of r field = None"
  shows "column df field = Inl (KeyError field)"
  using assms by (auto simp: column_def list_ex_iff)





text \<open>
  The aggregator returns on every batch, whatever the reductions do, and the record that
  it returns binds \<^verbatim>\<open>dateTime\<close> to the time read in the aggregator.
\<close>

lemma data_aggregation_returns:
  "\<exists>printed aggregated_data.
     data_aggregation pd current_time list_of_data_points = (printed, Inr aggregated_data)
     \<and> map_of aggregated_data ''dateTime'' = Some (Stamp current_time)"
  by (auto simp: data_aggregation_def update_conv' split: prod.splits option.splits)

text \<open>
  C7. Take a field \<open>x\<close> of the schema, other than the time, that no record of the batch
  binds, in a batch that is valid otherwise: every other field is bound by some record
  and the reductions return on its column (\<open>mn f\<close>, \<open>mx f\<close> and \<open>md f\<close> for the field
  \<open>f\<close>). The aggregator does not raise: it prints the batch and the
  \<^verbatim>\<open>KeyError\<close> of \<open>x\<close>, and returns the record that holds the aggregates of the
  fields that come before \<open>x\<close> in the schema, which are those that were computed, and
  the time.
\<close>

theorem data_aggregation_best_effort:
  fixes mn mx md :: "string \<Rightarrow> 's"
  assumes x: "x \<in> set CSV_FIELD_NAMES" "x \<noteq> ''dateTime''"
    and absent: "\<forall>r\<in>set list_of_data_points. map_of r x = None"
    and valid: "\<forall>f\<in>set CSV_FIELD_NAMES. f \<noteq> ''dateTime'' \<and> f \<noteq> x \<longrightarrow>
        (\<exists>r\<in>set list_of_data_points. map_of r f \<noteq> None)
        \<and> series_min pd (map (\<lambda>r. map_of r f) list_of_data_points) = Inr (mn f)
        \<and> series_max pd (map (\<lambda>r. map_of r f) list_of_data_points) = Inr (mx f)
        \<and> series_median pd (map (\<lambda>r. map_of r f) list_of_data_points) = Inr (md f)"
  shows "data_aggregation pd current_time list_of_data_points =
    ([Failed_aggregating, Batch list_of_data_points, Hashes, ERROR_line, Err (KeyError x)],
     Inr (concat (map (\<lambda>f. [(f @ ''_min'', Text (str_of pd (mn f))),
                            (f @ ''_max'', Text (str_of pd (mx f))),
                            (f @ ''_median'', Text (str_of pd (md f)))])
                  (takeWhile (\<lambda>f. f \<noteq> x)
                     (filter (\<lambda>f. f \<noteq> ''dateTime'') CSV_FIELD_NAMES)))
          @ [(''dateTime'', Stamp current_time)]))"
proof -
  from x consider "x = ''lights_on_time''" | "x = ''lights_off_time''"
    by (auto simp: CSV_FIELD_NAMES_def)
  then show ?thesis
  proof cases
    case 1
    with absent
    have "column list_of_data_points ''lights_on_time'' = Inl (KeyError ''lights_on_time'')"
      by (intro column_absent) simp
    with 1 show ?thesis
      by (simp add: data_aggregation_def CSV_FIELD_NAMES_def reduce_def)
  next
    case 2
    with absent
    have c2: "column list_of_data_points ''lights_off_time'' = Inl (KeyError ''lights_off_time'')"
      by (intro column_absent) simp
    from valid 2 have c1: "column list_of_data_points ''lights_on_time''
        = Inr (map (\<lambda>r. map_of r ''lights_on_time'') list_of_data_points)"
      by (intro column_some) (simp add: CSV_FIELD_NAMES_def)
    from valid 2 have r1:
      "series_min pd (map (\<lambda>r. map_of r ''lights_on_time'') list_of_data_points)
       = Inr (mn ''lights_on_time'')"
      "series_max pd (map (\<lambda>r. map_of r ''lights_on_time'') list_of_data_points)
       = Inr (mx ''lights_on_time'')"
      "series_median pd (map (\<lambda>r. map_of r ''lights_on_time'') list_of_data_points)
       = Inr (md ''lights_on_time'')"
      by (simp_all add: CSV_FIELD_NAMES_def)
    from 2 show ?thesis
      by (simp add: data_aggregation_def CSV_FIELD_NAMES_def reduce_def c1 c2 r1)
  qed
qed

theorem data_aggregation_best_effort_witness:
  "list_all (\<lambda>r. map_of r ''lights_off_time'' = None) minute_without_off
   \<and> list_ex (\<lambda>r. map_of r ''lights_on_time'' \<noteq> None) minute_without_off
   \<and> data_aggregation whole_numbers ''2024-01-01 12:01:00'' minute_without_off =
      ([Failed_aggregating, Batch minute_without_off, Hashes, ERROR_line,
        Err (KeyError ''lights_off_time'')],
       Inr [(''lights_on_time_min'', Text ''50.0''), (''lights_on_time_max'', Text ''52.0''),
            (''lights_on_time_median'', Text ''51.0''),
            (''dateTime'', Stamp ''2024-01-01 12:01:00'')])"
proof -
  have h1: "''lights_off_time'' \<in> set CSV_FIELD_NAMES"
    by (simp add: CSV_FIELD_NAMES_def)
  have h2: "''lights_off_time'' \<noteq> ''dateTime''" by simp
  have h3: "\<forall>r\<in>set minute_without_off. map_of r ''lights_off_time'' = None"
    by (simp add: minute_without_off_def)
  have h4: "\<forall>f\<in>set CSV_FIELD_NAMES. f \<noteq> ''dateTime'' \<and> f \<noteq> ''lights_off_time'' \<longrightarrow>
        (\<exists>r\<in>set minute_without_off. map_of r f \<noteq> None)
        \<and> series_min whole_numbers (map (\<lambda>r. map_of r f) minute_without_off)
            = Inr ((\<lambda>f. 50) f)
        \<and> series_max whole_numbers (map (\<lambda>r. map_of r f) minute_without_off)
            = Inr ((\<lambda>f. 52) f)
        \<and> series_median whole_numbers (map (\<lambda>r. map_of r f) minute_without_off)
            = Inr ((\<lambda>f. 51) f)"
    by (simp add: CSV_FIELD_NAMES_def minute_without_off_def whole_numbers_def middle_def)
  have h5: "\<exists>r\<in>set minute_without_off. map_of r ''lights_on_time'' \<noteq> None"
    by (simp add: minute_without_off_def)
  have s: "str_of whole_numbers 50 = ''50.0''" "str_of whole_numbers 52 = ''52.0''"
    "str_of whole_numbers 51 = ''51.0''"
    by (simp_all add: whole_numbers_def str_int_def str_nat.simps digit_def)
  from data_aggregation_best_effort [OF h1 h2 h3 h4, of "''2024-01-01 12:01:00''"]
  have "data_aggregation whole_numbers ''2024-01-01 12:01:00'' minute_without_off =
      ([Failed_aggregating, Batch minute_without_off, Hashes, ERROR_line,
        Err (KeyError ''lights_off_time'')],
       Inr [(''lights_on_time_min'', Text ''50.0''), (''lights_on_time_max'', Text ''52.0''),
            (''lights_on_time_median'', Text ''51.0''),
            (''dateTime'', Stamp ''2024-01-01 12:01:00'')])"
    by (simp add: CSV_FIELD_NAMES_def s)
  with h3 h5 show ?thesis by (simp add: list_all_iff list_ex_iff)
qed

end
